theory Spec2Isabelle
  imports Complex_Main
begin

section \<open>Rotations in three dimensions: \<open>scipy/spatial/transform/rotation.py\<close>\<close>

text \<open>
  The class \<open>Rotation\<close> stores a batch of unit quaternions and converts between
  quaternions, direction cosine matrices, rotation vectors and Euler angle sequences.
  The embedding works over the real numbers: every numpy \<open>float64\<close> is a \<open>real\<close>,
  \<open>np.sin\<close>, \<open>np.cos\<close> and \<open>np.sqrt\<close> are the real functions, and the constant
  \<open>1e-3\<close> is the rational \<open>1/1000\<close>. Rounding is outside the model.
\<close>

subsection \<open>Arrays\<close>

text \<open>
  A numpy array of rank 0 to 3. Ranks 2 and 3 carry their trailing dimensions, so
  that an array with no rows still has a shape such as \<open>(0, 4)\<close>.
\<close>

datatype ndarray =
    A0 real
  | A1 "real list"
  | A2 nat "real list list"
  | A3 nat nat "real list list list"

fun shape :: "ndarray \<Rightarrow> nat list" where
  "shape (A0 v) = []"
| "shape (A1 xs) = [length xs]"
| "shape (A2 c rs) = [length rs, c]"
| "shape (A3 r c ms) = [length ms, r, c]"

definition ndim :: "ndarray \<Rightarrow> nat" where
  "ndim a = length (shape a)"

text \<open>The data of an array has the dimensions its shape announces.\<close>

fun wf_array :: "ndarray \<Rightarrow> bool" where
  "wf_array (A0 v) = True"
| "wf_array (A1 xs) = True"
| "wf_array (A2 c rs) = list_all (\<lambda>r. length r = c) rs"
| "wf_array (A3 r c ms) = list_all (\<lambda>m. length m = r \<and> list_all (\<lambda>row. length row = c) m) ms"

text \<open>
  The rows of a two-dimensional array, and of a one-dimensional array after
  \<open>a[None, :]\<close>; the matrices of a three-dimensional array, and of a two-dimensional
  array after \<open>a.reshape((1, 3, 3))\<close>.
\<close>

fun rows_2d :: "ndarray \<Rightarrow> real list list" where
  "rows_2d (A1 xs) = [xs]"
| "rows_2d (A2 c rs) = rs"
| "rows_2d (A0 v) = []"
| "rows_2d (A3 r c ms) = []"

fun mats_3d :: "ndarray \<Rightarrow> real list list list" where
  "mats_3d (A2 c m) = [m]"
| "mats_3d (A3 r c ms) = ms"
| "mats_3d (A0 v) = []"
| "mats_3d (A1 xs) = []"

text \<open>\<open>np.linalg.norm(a, axis=1)\<close> and \<open>scipy.linalg.norm(a, axis=1)\<close> on one row.\<close>

definition norm_row :: "real list \<Rightarrow> real" where
  "norm_row r = sqrt (sum_list (map (\<lambda>v. v\<^sup>2) r))"

subsection \<open>Errors\<close>

text \<open>
  Every \<open>raise\<close> of the source is a \<open>ValueError\<close>; the message tells them apart.
  \<open>UnboundLocalError\<close> is what Python raises when \<open>_make_dcm_from_angle\<close> returns a
  local that no branch assigned, \<open>IndexError\<close> what \<open>shape[0]\<close> raises on a rank 0
  array.
\<close>

datatype message =
    Expected_quat_shape
  | Found_zero_norm_quaternions
  | Expected_dcm_shape
  | Expected_rot_vec_shape
  | Number_of_axes_does_not_match
  | Cannot_allow_mixing
  | Invalid_axis_sequence
  | Number_of_axis_sequences
  | Expected_3_angles

datatype error = ValueError message | UnboundLocalError | IndexError

subsection \<open>The quaternion store\<close>

record Rotation =
  r_single :: bool
  r_quat :: "real list list"

text \<open>
  \<open>Rotation.__init__\<close>. The field \<open>r_quat\<close> is \<open>self._quat\<close>, an array of shape
  \<open>(N, 4)\<close> held as its list of rows; \<open>r_single\<close> is \<open>self._single\<close>.
  The last statement divides the rows selected by the mask \<open>~zero_norms\<close>.
\<close>

definition Rotation_init :: "ndarray \<Rightarrow> bool \<Rightarrow> error + Rotation" where
  "Rotation_init quat normalized =
    (if ndim quat \<notin> {1, 2} \<or> last (shape quat) \<noteq> 4
     then Inl (ValueError Expected_quat_shape)
     else
       let single = (shape quat = [4]);
           rows = rows_2d quat
       in
       if normalized then Inr \<lparr>r_single = single, r_quat = rows\<rparr>
       else
         let norms = map norm_row rows;
             zero_norms = map (\<lambda>n. n = 0) norms
         in if list_ex (\<lambda>z. z) zero_norms
            then Inl (ValueError Found_zero_norm_quaternions)
            else Inr \<lparr>r_single = single,
                      r_quat = map (\<lambda>(row, z, n). if \<not> z then map (\<lambda>v. v / n) row else row)
                                   (zip rows (zip zero_norms norms))\<rparr>)"

definition from_quaternion :: "ndarray \<Rightarrow> bool \<Rightarrow> error + Rotation" where
  "from_quaternion quat normalized = Rotation_init quat normalized"

definition as_quaternion :: "Rotation \<Rightarrow> ndarray" where
  "as_quaternion self = (if r_single self then A1 (r_quat self ! 0) else A2 4 (r_quat self))"

subsection \<open>Direction cosine matrices\<close>

text \<open>One row of the vectorised body of \<open>as_dcm\<close>: the matrix of the quaternion \<open>(x, y, z, w)\<close>.\<close>

definition as_dcm_row :: "real list \<Rightarrow> real list list" where
  "as_dcm_row q =
    (let x = q ! 0; y = q ! 1; z = q ! 2; w = q ! 3;
         x2 = x * x; y2 = y * y; z2 = z * z; w2 = w * w;
         xy = x * y; zw = z * w; xz = x * z; yw = y * w; yz = y * z; xw = x * w
     in [[x2 - y2 - z2 + w2, 2 * (xy - zw), 2 * (xz + yw)],
         [2 * (xy + zw), - x2 + y2 - z2 + w2, 2 * (yz - xw)],
         [2 * (xz - yw), 2 * (yz + xw), - x2 - y2 + z2 + w2]])"

definition as_dcm :: "Rotation \<Rightarrow> ndarray" where
  "as_dcm self =
    (let dcm = map as_dcm_row (r_quat self)
     in if r_single self then A2 3 (dcm ! 0) else A3 3 3 dcm)"

text \<open>\<open>ndarray.argmax\<close>: the index of the first occurrence of the maximum.\<close>

fun argmax_from :: "real list \<Rightarrow> nat \<Rightarrow> nat \<Rightarrow> real \<Rightarrow> nat" where
  "argmax_from [] i best v = best"
| "argmax_from (x # xs) i best v =
     (if v < x then argmax_from xs (Suc i) i x else argmax_from xs (Suc i) best v)"

fun argmax :: "real list \<Rightarrow> nat" where
  "argmax [] = 0"
| "argmax (x # xs) = argmax_from xs 1 0 x"

text \<open>
  One matrix of the vectorised body of \<open>from_dcm\<close>, before the division by the norm.
  \<open>np.empty\<close> leaves the four entries unset; both branches assign all four, so the
  initial list only fixes the length.
\<close>

definition from_dcm_row :: "real list list \<Rightarrow> real list" where
  "from_dcm_row dcm =
    (let decision = [dcm ! 0 ! 0, dcm ! 1 ! 1, dcm ! 2 ! 2,
                     dcm ! 0 ! 0 + dcm ! 1 ! 1 + dcm ! 2 ! 2];
         choice = argmax decision
     in if choice \<noteq> 3 then
          let i = choice; j = (i + 1) mod 3; k = (j + 1) mod 3
          in [0, 0, 0, 0]
               [i := 1 - decision ! 3 + 2 * dcm ! i ! i,
                j := dcm ! j ! i + dcm ! i ! j,
                k := dcm ! k ! i + dcm ! i ! k,
                3 := dcm ! k ! j - dcm ! j ! k]
        else [dcm ! 2 ! 1 - dcm ! 1 ! 2,
              dcm ! 0 ! 2 - dcm ! 2 ! 0,
              dcm ! 1 ! 0 - dcm ! 0 ! 1,
              1 + decision ! 3])"

text \<open>
  \<open>from_dcm\<close>. The statement \<open>quat /= np.linalg.norm(quat, axis=1)[:, None]\<close> raises
  nothing when a norm is zero: numpy stores \<open>nan\<close>. The reals have no \<open>nan\<close>; a
  theorem below that speaks of the values of the result shows the norm to be nonzero.
\<close>

definition from_dcm :: "ndarray \<Rightarrow> error + Rotation" where
  "from_dcm dcm =
    (if ndim dcm \<notin> {2, 3} \<or> (shape dcm ! (ndim dcm - 2), shape dcm ! (ndim dcm - 1)) \<noteq> (3, 3)
     then Inl (ValueError Expected_dcm_shape)
     else
       let is_single = (shape dcm = [3, 3]);
           mats = mats_3d dcm;
           quat = map from_dcm_row mats;
           quat = map (\<lambda>q. map (\<lambda>v. v / norm_row q) q) quat
       in Rotation_init (if is_single then A1 (quat ! 0) else A2 4 quat) True)"

subsection \<open>Rotation vectors\<close>

text \<open>
  One row of the vectorised body of \<open>from_rotvec\<close>; \<open>from_rotvec_scale\<close> is the entry
  of \<open>scale\<close> that the masks \<open>small_angle\<close> and \<open>large_angle\<close> select.
\<close>

definition from_rotvec_scale :: "real \<Rightarrow> real" where
  "from_rotvec_scale norms =
    (let small_angle = (norms \<le> 1 / 1000)
     in if small_angle then 1 / 2 - norms\<^sup>2 / 48 + norms ^ 4 / 3840
        else sin (norms / 2) / norms)"

definition from_rotvec_row :: "real list \<Rightarrow> real list" where
  "from_rotvec_row rotvec =
    (let norms = norm_row rotvec;
         scale = from_rotvec_scale norms
     in map (\<lambda>c. scale * c) rotvec @ [cos (norms / 2)])"

definition from_rotvec :: "ndarray \<Rightarrow> error + Rotation" where
  "from_rotvec rotvec =
    (if ndim rotvec \<notin> {1, 2} \<or> last (shape rotvec) \<noteq> 3
     then Inl (ValueError Expected_rot_vec_shape)
     else
       let is_single = (shape rotvec = [3]);
           rows = rows_2d rotvec;
           quat = map from_rotvec_row rows
       in Rotation_init (if is_single then A1 (quat ! 0) else A2 4 quat) True)"







subsection \<open>Euler angles\<close>

text \<open>\<open>str.lower\<close> on one character: the letters \<open>A\<close> to \<open>Z\<close> move to \<open>a\<close> to \<open>z\<close>.\<close>

definition lower :: "char \<Rightarrow> char" where
  "lower c = (let n = (of_char c :: nat) in if 65 \<le> n \<and> n \<le> 90 then char_of (n + 32) else c)"

definition mat_transpose :: "real list list \<Rightarrow> real list list" where
  "mat_transpose m = map (\<lambda>j. map (\<lambda>i. m ! i ! j) [0, 1, 2]) [0, 1, 2]"

text \<open>
  \<open>_make_dcm_from_angle\<close>. When no branch of the \<open>if\<close> chain assigns \<open>dcm\<close>, the
  \<open>return\<close> raises \<open>UnboundLocalError\<close>.
\<close>

definition make_dcm_from_angle :: "char \<Rightarrow> real \<Rightarrow> bool \<Rightarrow> error + real list list" where
  "make_dcm_from_angle char angle intrinsic =
    (let sinx = sin angle; cosx = cos angle; axis = lower char;
         dcm = (if axis = CHR ''z'' then
                  Some [[cosx, - sinx, 0],
                        [sinx, cosx, 0],
                        [0, 0, 1]]
                else if axis = CHR ''y'' then
                  Some [[cosx, 0, sinx],
                        [0, 1, 0],
                        [- sinx, 0, cosx]]
                else if axis = CHR ''x'' then
                  Some [[1, 0, 0],
                        [0, cosx, - sinx],
                        [0, sinx, cosx]]
                else None)
     in case dcm of
          None \<Rightarrow> Inl UnboundLocalError
        | Some d \<Rightarrow> Inr (if intrinsic then mat_transpose d else d))"

text \<open>
  The two \<open>np.einsum\<close> calls on \<open>3 \<times> 3\<close> operands. An index that is absent from
  the output is summed over: \<open>'...ij,...jk->...ik'\<close> is the matrix product, and
  \<open>'...ij,...ik->...ik'\<close> multiplies the entry \<open>b[i, k]\<close> by the sum of row \<open>i\<close> of \<open>a\<close>.
\<close>

definition einsum_ij_jk_ik :: "real list list \<Rightarrow> real list list \<Rightarrow> real list list" where
  "einsum_ij_jk_ik a b =
    map (\<lambda>i. map (\<lambda>k. sum_list (map (\<lambda>j. a ! i ! j * b ! j ! k) [0, 1, 2])) [0, 1, 2]) [0, 1, 2]"

definition einsum_ij_ik_ik :: "real list list \<Rightarrow> real list list \<Rightarrow> real list list" where
  "einsum_ij_ik_ik a b =
    map (\<lambda>i. map (\<lambda>k. sum_list (map (\<lambda>j. a ! i ! j * b ! i ! k) [0, 1, 2])) [0, 1, 2]) [0, 1, 2]"

definition eye3 :: "real list list" where
  "eye3 = [[1, 0, 0], [0, 1, 0], [0, 0, 1]]"

text \<open>
  \<open>re.compile("^[xyz]{1,3}$").match(s)\<close> and its upper case twin, as Python's \<open>re\<close>
  decides them: one to three characters of the class from the start of the string,
  and then \<open>$\<close>, which holds at the end of the string and also just before a newline
  that is the last character.
\<close>

definition re_match :: "char list \<Rightarrow> string \<Rightarrow> bool" where
  "re_match cls s =
    list_ex (\<lambda>n. n \<le> length s \<and> list_all (\<lambda>c. c \<in> set cls) (take n s) \<and>
                 (drop n s = [] \<or> drop n s = [CHR 0x0A]))
            [1, 2, 3]"

definition extrinsic :: "string \<Rightarrow> bool" where
  "extrinsic s = re_match ''xyz'' s"

definition intrinsic :: "string \<Rightarrow> bool" where
  "intrinsic s = re_match ''XYZ'' s"

text \<open>The two loops of \<open>_make_dcm_from_euler\<close> over \<open>enumerate(axis_str)\<close>.\<close>

fun pre_multiply :: "(char \<times> real) list \<Rightarrow> real list list \<Rightarrow> error + real list list" where
  "pre_multiply [] dcm = Inr dcm"
| "pre_multiply ((char, a) # rest) dcm =
     (case make_dcm_from_angle char a False of
        Inl e \<Rightarrow> Inl e
      | Inr r \<Rightarrow> pre_multiply rest (einsum_ij_jk_ik r dcm))"

fun post_multiply :: "(char \<times> real) list \<Rightarrow> real list list \<Rightarrow> error + real list list" where
  "post_multiply [] dcm = Inr dcm"
| "post_multiply ((char, a) # rest) dcm =
     (case make_dcm_from_angle char a True of
        Inl e \<Rightarrow> Inl e
      | Inr r \<Rightarrow> post_multiply rest (einsum_ij_ik_ik dcm r))"

text \<open>
  \<open>_make_dcm_from_euler\<close>. Both callers pass a one-dimensional \<open>angle\<close>, whose
  \<open>shape[0]\<close> is its length.
\<close>

definition make_dcm_from_euler :: "string \<Rightarrow> real list \<Rightarrow> error + real list list" where
  "make_dcm_from_euler axis_str angle =
    (if length axis_str \<noteq> length angle then Inl (ValueError Number_of_axes_does_not_match)
     else if \<not> extrinsic axis_str \<and> \<not> intrinsic axis_str then Inl (ValueError Cannot_allow_mixing)
     else if extrinsic axis_str then pre_multiply (zip axis_str angle) eye3
     else if intrinsic axis_str then post_multiply (zip axis_str angle) eye3
     else Inr eye3)"

text \<open>The argument \<open>seq\<close> of \<open>from_euler\<close>: a \<open>str\<close>, or a sequence of strings.\<close>

datatype seq_arg = Str string | StrArray "string list"

fun map_ndarray :: "(real \<Rightarrow> real) \<Rightarrow> ndarray \<Rightarrow> ndarray" where
  "map_ndarray f (A0 v) = A0 (f v)"
| "map_ndarray f (A1 xs) = A1 (map f xs)"
| "map_ndarray f (A2 c rs) = A2 c (map (map f) rs)"
| "map_ndarray f (A3 r c ms) = A3 r c (map (map (map f)) ms)"

definition deg2rad :: "ndarray \<Rightarrow> ndarray" where
  "deg2rad a = map_ndarray (\<lambda>x. x * (pi / 180)) a"

text \<open>The loop of \<open>from_euler\<close> over \<open>enumerate(seq)\<close>, filling \<open>dcm_set\<close>.\<close>

fun fill_dcm_set :: "(string \<times> real list) list \<Rightarrow> error + real list list list" where
  "fill_dcm_set [] = Inr []"
| "fill_dcm_set ((axes, angles) # rest) =
     (case make_dcm_from_euler axes angles of
        Inl e \<Rightarrow> Inl e
      | Inr dcm \<Rightarrow> (case fill_dcm_set rest of Inl e \<Rightarrow> Inl e | Inr ds \<Rightarrow> Inr (dcm # ds)))"

definition from_euler :: "seq_arg \<Rightarrow> ndarray \<Rightarrow> bool \<Rightarrow> error + Rotation" where
  "from_euler seq angle_mat0 deg =
    (let angle_mat = (if deg then deg2rad angle_mat0 else angle_mat0) in
     case seq of
       Str s \<Rightarrow>
         if ndim angle_mat = 0 then Inl IndexError
         else if length s \<noteq> shape angle_mat ! 0 \<or> ndim angle_mat \<noteq> 1
         then Inl (ValueError Invalid_axis_sequence)
         else (case angle_mat of
                 A1 angles \<Rightarrow>
                   (case make_dcm_from_euler s angles of
                      Inl e \<Rightarrow> Inl e
                    | Inr dcm \<Rightarrow> from_dcm (A2 3 dcm)))
     | StrArray seqs \<Rightarrow>
         if ndim angle_mat = 0 then Inl IndexError
         else if length seqs \<noteq> shape angle_mat ! 0
         then Inl (ValueError Number_of_axis_sequences)
         else if ndim angle_mat \<noteq> 2 \<or> last (shape angle_mat) \<noteq> 3
         then Inl (ValueError Expected_3_angles)
         else (case angle_mat of
                 A2 c rows \<Rightarrow>
                   (case fill_dcm_set (zip seqs rows) of
                      Inl e \<Rightarrow> Inl e
                    | Inr dcm_set \<Rightarrow> from_dcm (A3 3 3 dcm_set))))"

subsection \<open>Notions of the specification\<close>

text \<open>
  The product of two \<open>3 \<times> 3\<close> matrices and the determinant of one, in which the
  specification states orthogonality. Neither occurs in the source.
\<close>

definition mat_mul :: "real list list \<Rightarrow> real list list \<Rightarrow> real list list" where
  "mat_mul a b =
    map (\<lambda>i. map (\<lambda>k. a ! i ! 0 * b ! 0 ! k + a ! i ! 1 * b ! 1 ! k + a ! i ! 2 * b ! 2 ! k) [0, 1, 2]) [0, 1, 2]"

definition det3 :: "real list list \<Rightarrow> real" where
  "det3 m =
    m ! 0 ! 0 * (m ! 1 ! 1 * m ! 2 ! 2 - m ! 1 ! 2 * m ! 2 ! 1)
    - m ! 0 ! 1 * (m ! 1 ! 0 * m ! 2 ! 2 - m ! 1 ! 2 * m ! 2 ! 0)
    + m ! 0 ! 2 * (m ! 1 ! 0 * m ! 2 ! 1 - m ! 1 ! 1 * m ! 2 ! 0)"

text \<open>
  An axis sequence as the docstring of \<open>from_euler\<close> describes it: one to three
  characters, all of them in \<open>{x, y, z}\<close> or all of them in \<open>{X, Y, Z}\<close>.
\<close>

definition axes_ok :: "string \<Rightarrow> bool" where
  "axes_ok s \<longleftrightarrow>
     1 \<le> length s \<and> length s \<le> 3 \<and>
     (list_all (\<lambda>c. c \<in> set ''xyz'') s \<or> list_all (\<lambda>c. c \<in> set ''XYZ'') s)"

section \<open>Properties\<close>

subsection \<open>Evaluation\<close>

lemmas euler_eval =
  make_dcm_from_euler_def extrinsic_def intrinsic_def re_match_def make_dcm_from_angle_def
  lower_def char_of_eq_iff einsum_ij_ik_ik_def einsum_ij_jk_ik_def eye3_def mat_transpose_def

subsection \<open>Euler composition\<close>

text \<open>
  C1, as stated: the sequence \<open>"XYZ"\<close> with the angles \<open>(\<pi>/2, 0, 0)\<close> composes to the
  elementary rotation about \<open>x\<close> by \<open>\<pi>/2\<close>. It does not: the code returns the diagonal
  matrix \<open>diag(1, 1, -1)\<close>, while the elementary matrix is the one with rows
  \<open>(1, 0, 0)\<close>, \<open>(0, 0, -1)\<close>, \<open>(0, 1, 0)\<close>.
\<close>

theorem euler_XYZ_counterexample:
  "make_dcm_from_euler ''XYZ'' [pi / 2, 0, 0] = Inr [[1, 0, 0], [0, 1, 0], [0, 0, - 1]]
   \<and> make_dcm_from_angle (CHR ''x'') (pi / 2) False = Inr [[1, 0, 0], [0, 0, - 1], [0, 1, 0]]
   \<and> make_dcm_from_euler ''XYZ'' [pi / 2, 0, 0] \<noteq> make_dcm_from_angle (CHR ''x'') (pi / 2) False
   \<and> make_dcm_from_euler ''XYZ'' [pi / 2, 0, 0] \<noteq> make_dcm_from_euler ''xyz'' [pi / 2, 0, 0]"
  by (simp add: euler_eval)

text \<open>
  C1, amended: the extrinsic sequence \<open>"xyz"\<close> with the angles \<open>(\<pi>/2, 0, 0)\<close> composes to
  the elementary rotation about \<open>x\<close> by \<open>\<pi>/2\<close>. An intrinsic elementary matrix is the
  transpose of the extrinsic one, so the single axis sequence \<open>"X"\<close> with the angle
  \<open>\<pi>/2\<close> composes to the transpose of that matrix, which is the elementary rotation
  about \<open>x\<close> by \<open>-\<pi>/2\<close>.
\<close>

theorem euler_xyz_elementary:
  "make_dcm_from_euler ''xyz'' [pi / 2, 0, 0] = make_dcm_from_angle (CHR ''x'') (pi / 2) False
   \<and> make_dcm_from_euler ''xyz'' [pi / 2, 0, 0] = Inr [[1, 0, 0], [0, 0, - 1], [0, 1, 0]]
   \<and> make_dcm_from_euler ''X'' [pi / 2] = make_dcm_from_angle (CHR ''X'') (pi / 2) True
   \<and> make_dcm_from_euler ''X'' [pi / 2] = Inr (mat_transpose [[1, 0, 0], [0, 0, - 1], [0, 1, 0]])
   \<and> make_dcm_from_euler ''X'' [pi / 2] = make_dcm_from_angle (CHR ''x'') (- (pi / 2)) False"
  by (simp add: euler_eval)

text \<open>
  C9, at the failing input: the sequence \<open>"xy\n"\<close> with three angles passes both
  checks of \<open>_make_dcm_from_euler\<close>, because \<open>$\<close> holds before a final newline; the
  loop then hands the newline to \<open>_make_dcm_from_angle\<close>, where no branch assigns
  \<open>dcm\<close>, and the call ends in \<open>UnboundLocalError\<close>.
\<close>

theorem euler_trailing_newline_unbound:
  "extrinsic (''xy'' @ [CHR 0x0A])
   \<and> make_dcm_from_angle (CHR 0x0A) 0 False = Inl UnboundLocalError
   \<and> make_dcm_from_euler (''xy'' @ [CHR 0x0A]) [0, 0, 0] = Inl UnboundLocalError
   \<and> from_euler (Str (''xy'' @ [CHR 0x0A])) (A1 [0, 0, 0]) False = Inl UnboundLocalError"
  by (simp add: euler_eval from_euler_def ndim_def)

theorem euler_trailing_newline_unbound_witness:
  "from_euler (Str (''xy'' @ [CHR 0x0A])) (A1 [0, 0, 0]) False = Inl UnboundLocalError"
  using euler_trailing_newline_unbound by blast

subsection \<open>Quaternions and direction cosine matrices\<close>

lemma length4E:
  assumes "length q = 4"
  obtains x y z w where "q = [x, y, z, w]"
proof -
  from assms obtain x q1 where q: "q = x # q1" and l1: "length q1 = 3" by (cases q) auto
  from l1 obtain y q2 where q1: "q1 = y # q2" and l2: "length q2 = 2" by (cases q1) auto
  from l2 obtain z q3 where q2: "q2 = z # q3" and l3: "length q3 = 1" by (cases q2) auto
  from l3 obtain w where q3: "q3 = [w]" by (cases q3) auto
  from q q1 q2 q3 that show thesis by simp
qed

lemma norm_row4: "norm_row [x, y, z, w] = sqrt (x\<^sup>2 + y\<^sup>2 + z\<^sup>2 + w\<^sup>2)"
  by (simp add: norm_row_def add.assoc)

lemma unit4: "norm_row [x, y, z, w] = 1 \<longleftrightarrow> x\<^sup>2 + y\<^sup>2 + z\<^sup>2 + w\<^sup>2 = 1"
  by (simp add: norm_row4)

lemma Rotation_init_unit_single:
  assumes "norm_row [x, y, z, w] = 1"
  shows "Rotation_init (A1 [x, y, z, w]) normalized = Inr \<lparr>r_single = True, r_quat = [[x, y, z, w]]\<rparr>"
  using assms by (simp add: Rotation_init_def ndim_def Let_def)

lemma as_dcm_single:
  "as_dcm \<lparr>r_single = True, r_quat = [q]\<rparr> = A2 3 (as_dcm_row q)"
  by (simp add: as_dcm_def)

lemma as_dcm_row4:
  "as_dcm_row [x, y, z, w] =
     [[x * x - y * y - z * z + w * w, 2 * (x * y - z * w), 2 * (x * z + y * w)],
      [2 * (x * y + z * w), - (x * x) + y * y - z * z + w * w, 2 * (y * z - x * w)],
      [2 * (x * z - y * w), 2 * (y * z + x * w), - (x * x) - y * y + z * z + w * w]]"
  by (simp add: as_dcm_row_def Let_def)

lemma orth_row:
  fixes x y z w :: real
  assumes u: "x\<^sup>2 + y\<^sup>2 + z\<^sup>2 + w\<^sup>2 = 1"
  shows "mat_mul (mat_transpose (as_dcm_row [x, y, z, w])) (as_dcm_row [x, y, z, w]) = eye3"
proof -
  have sq: "(x\<^sup>2 + y\<^sup>2 + z\<^sup>2 + w\<^sup>2)\<^sup>2 = 1" using u by simp
  have d0: "(x * x - y * y - z * z + w * w) * (x * x - y * y - z * z + w * w)
          + 2 * (x * y + z * w) * (2 * (x * y + z * w))
          + 2 * (x * z - y * w) * (2 * (x * z - y * w)) = (x\<^sup>2 + y\<^sup>2 + z\<^sup>2 + w\<^sup>2)\<^sup>2"
    by (simp add: power2_eq_square algebra_simps)
  have d1: "2 * (x * y - z * w) * (2 * (x * y - z * w))
          + (- (x * x) + y * y - z * z + w * w) * (- (x * x) + y * y - z * z + w * w)
          + 2 * (y * z + x * w) * (2 * (y * z + x * w)) = (x\<^sup>2 + y\<^sup>2 + z\<^sup>2 + w\<^sup>2)\<^sup>2"
    by (simp add: power2_eq_square algebra_simps)
  have d2: "2 * (x * z + y * w) * (2 * (x * z + y * w))
          + 2 * (y * z - x * w) * (2 * (y * z - x * w))
          + (- (x * x) - y * y + z * z + w * w) * (- (x * x) - y * y + z * z + w * w) = (x\<^sup>2 + y\<^sup>2 + z\<^sup>2 + w\<^sup>2)\<^sup>2"
    by (simp add: power2_eq_square algebra_simps)
  have o01: "(x * x - y * y - z * z + w * w) * (2 * (x * y - z * w))
          + 2 * (x * y + z * w) * (- (x * x) + y * y - z * z + w * w)
          + 2 * (x * z - y * w) * (2 * (y * z + x * w)) = 0"
    by (simp add: algebra_simps)
  have o02: "(x * x - y * y - z * z + w * w) * (2 * (x * z + y * w))
          + 2 * (x * y + z * w) * (2 * (y * z - x * w))
          + 2 * (x * z - y * w) * (- (x * x) - y * y + z * z + w * w) = 0"
    by (simp add: algebra_simps)
  have o12: "2 * (x * y - z * w) * (2 * (x * z + y * w))
          + (- (x * x) + y * y - z * z + w * w) * (2 * (y * z - x * w))
          + 2 * (y * z + x * w) * (- (x * x) - y * y + z * z + w * w) = 0"
    by (simp add: algebra_simps)
  have o10: "2 * (x * y - z * w) * (x * x - y * y - z * z + w * w)
          + (- (x * x) + y * y - z * z + w * w) * (2 * (x * y + z * w))
          + 2 * (y * z + x * w) * (2 * (x * z - y * w)) = 0"
    by (simp add: algebra_simps)
  have o20: "2 * (x * z + y * w) * (x * x - y * y - z * z + w * w)
          + 2 * (y * z - x * w) * (2 * (x * y + z * w))
          + (- (x * x) - y * y + z * z + w * w) * (2 * (x * z - y * w)) = 0"
    by (simp add: algebra_simps)
  have o21: "2 * (x * z + y * w) * (2 * (x * y - z * w))
          + 2 * (y * z - x * w) * (- (x * x) + y * y - z * z + w * w)
          + (- (x * x) - y * y + z * z + w * w) * (2 * (y * z + x * w)) = 0"
    by (simp add: algebra_simps)
  show ?thesis
    unfolding as_dcm_row4 mat_mul_def mat_transpose_def eye3_def
    using d0 d1 d2 o01 o02 o12 o10 o20 o21 sq by simp
qed

lemma det_row:
  fixes x y z w :: real
  assumes u: "x\<^sup>2 + y\<^sup>2 + z\<^sup>2 + w\<^sup>2 = 1"
  shows "det3 (as_dcm_row [x, y, z, w]) = 1"
proof -
  have "det3 (as_dcm_row [x, y, z, w]) = (x\<^sup>2 + y\<^sup>2 + z\<^sup>2 + w\<^sup>2) ^ 3"
    unfolding as_dcm_row4 det3_def
    by (simp add: power2_eq_square power3_eq_cube algebra_simps)
  then show ?thesis using u by simp
qed



lemma argmax4:
  "argmax [a, b, c, d] =
     (if a < b then (if b < c then (if c < d then 3 else 2) else (if b < d then 3 else 1))
      else (if a < c then (if c < d then 3 else 2) else (if a < d then 3 else 0)))"
  by (simp add: numeral_3_eq_3 numeral_2_eq_2)

lemma upd4:
  "[a0, a1, a2, a3 :: real][0 := b] = [b, a1, a2, a3]"
  "[a0, a1, a2, a3 :: real][1 := b] = [a0, b, a2, a3]"
  "[a0, a1, a2, a3 :: real][2 := b] = [a0, a1, b, a3]"
  "[a0, a1, a2, a3 :: real][3 := b] = [a0, a1, a2, b]"
  by (simp_all add: numeral_3_eq_3 numeral_2_eq_2)

lemma mod3: "(0 + 1) mod 3 = (1::nat)" "(1 + 1) mod 3 = (2::nat)" "(2 + 1) mod 3 = (0::nat)"
  by simp_all
lemma nth4_3: "[a0, a1, a2, a3 :: real] ! 3 = a3"
  by simp
lemma ne3: "(0::nat) \<noteq> 3" "(1::nat) \<noteq> 3" "(2::nat) \<noteq> 3" by simp_all

lemma from_dcm_row_2:
  assumes "argmax [m ! 0 ! 0, m ! 1 ! 1, m ! 2 ! 2, m ! 0 ! 0 + m ! 1 ! 1 + m ! 2 ! 2] = 2"
  shows "from_dcm_row m =
     [m ! 0 ! 2 + m ! 2 ! 0, m ! 1 ! 2 + m ! 2 ! 1,
      1 - (m ! 0 ! 0 + m ! 1 ! 1 + m ! 2 ! 2) + 2 * m ! 2 ! 2,
      m ! 1 ! 0 - m ! 0 ! 1]"
  unfolding from_dcm_row_def Let_def assms
  by (simp only: ne3 mod3 upd4 nth4_3 if_True if_False simp_thms)

lemma from_dcm_row_3:
  assumes "argmax [m ! 0 ! 0, m ! 1 ! 1, m ! 2 ! 2, m ! 0 ! 0 + m ! 1 ! 1 + m ! 2 ! 2] = 3"
  shows "from_dcm_row m =
     [m ! 2 ! 1 - m ! 1 ! 2, m ! 0 ! 2 - m ! 2 ! 0, m ! 1 ! 0 - m ! 0 ! 1,
      1 + (m ! 0 ! 0 + m ! 1 ! 1 + m ! 2 ! 2)]"
  unfolding from_dcm_row_def Let_def assms
  by (simp only: ne3 mod3 upd4 nth4_3 if_True if_False simp_thms)
lemma from_dcm_row_0:
  assumes "argmax [m ! 0 ! 0, m ! 1 ! 1, m ! 2 ! 2, m ! 0 ! 0 + m ! 1 ! 1 + m ! 2 ! 2] = 0"
  shows "from_dcm_row m =
     [1 - (m ! 0 ! 0 + m ! 1 ! 1 + m ! 2 ! 2) + 2 * m ! 0 ! 0,
      m ! 1 ! 0 + m ! 0 ! 1, m ! 2 ! 0 + m ! 0 ! 2, m ! 2 ! 1 - m ! 1 ! 2]"
  unfolding from_dcm_row_def Let_def assms
  by (simp only: ne3 mod3 upd4 nth4_3 if_True if_False simp_thms)
lemma from_dcm_row_1:
  assumes "argmax [m ! 0 ! 0, m ! 1 ! 1, m ! 2 ! 2, m ! 0 ! 0 + m ! 1 ! 1 + m ! 2 ! 2] = 1"
  shows "from_dcm_row m =
     [m ! 0 ! 1 + m ! 1 ! 0,
      1 - (m ! 0 ! 0 + m ! 1 ! 1 + m ! 2 ! 2) + 2 * m ! 1 ! 1,
      m ! 2 ! 1 + m ! 1 ! 2, m ! 0 ! 2 - m ! 2 ! 0]"
  unfolding from_dcm_row_def Let_def assms
  by (simp only: ne3 mod3 upd4 nth4_3 if_True if_False simp_thms)

lemma as_dcm_row_entries:
  "as_dcm_row [x, y, z, w] ! 0 ! 0 = x * x - y * y - z * z + w * w"
  "as_dcm_row [x, y, z, w] ! 0 ! 1 = 2 * (x * y - z * w)"
  "as_dcm_row [x, y, z, w] ! 0 ! 2 = 2 * (x * z + y * w)"
  "as_dcm_row [x, y, z, w] ! 1 ! 0 = 2 * (x * y + z * w)"
  "as_dcm_row [x, y, z, w] ! 1 ! 1 = - (x * x) + y * y - z * z + w * w"
  "as_dcm_row [x, y, z, w] ! 1 ! 2 = 2 * (y * z - x * w)"
  "as_dcm_row [x, y, z, w] ! 2 ! 0 = 2 * (x * z - y * w)"
  "as_dcm_row [x, y, z, w] ! 2 ! 1 = 2 * (y * z + x * w)"
  "as_dcm_row [x, y, z, w] ! 2 ! 2 = - (x * x) - y * y + z * z + w * w"
  by (simp_all add: as_dcm_row4)

lemma argmax4_cases:
  "argmax [a, b, c, d] = 0 \<and> b \<le> a \<and> c \<le> a \<and> d \<le> a
   \<or> argmax [a, b, c, d] = 1 \<and> a < b
   \<or> argmax [a, b, c, d] = 2 \<and> a < c
   \<or> argmax [a, b, c, d] = 3 \<and> a < d"
  unfolding argmax4 by auto

lemma from_dcm_row_as_dcm_row:
  fixes x y z w :: real
  assumes u: "x\<^sup>2 + y\<^sup>2 + z\<^sup>2 + w\<^sup>2 = 1"
  shows "\<exists>c. c \<noteq> 0 \<and> from_dcm_row (as_dcm_row [x, y, z, w]) = [c * x, c * y, c * z, c * w]"
proof -
  let ?m = "as_dcm_row [x, y, z, w]"
  let ?a = "?m ! 0 ! 0" and ?b = "?m ! 1 ! 1" and ?c = "?m ! 2 ! 2"
  let ?ch = "argmax [?a, ?b, ?c, ?a + ?b + ?c]"
  have u': "x * x + y * y + z * z + w * w = 1"
    using u by (simp add: power2_eq_square)
  have nn: "0 \<le> x * x" "0 \<le> y * y" "0 \<le> z * z" "0 \<le> w * w" by simp_all
  from argmax4_cases [of ?a ?b ?c "?a + ?b + ?c"] show ?thesis
  proof (elim disjE conjE)
    assume c0: "?ch = 0" "?b \<le> ?a" "?c \<le> ?a" "?a + ?b + ?c \<le> ?a"
    from c0(2-4) have "x * x \<noteq> 0"
      unfolding as_dcm_row_entries using u' nn by linarith
    then have nz: "4 * x \<noteq> 0" by simp
    have e: "1 - (x * x - y * y - z * z + w * w + (- (x * x) + y * y - z * z + w * w)
                + (- (x * x) - y * y + z * z + w * w)) + 2 * (x * x - y * y - z * z + w * w)
             = 4 * x * x"
      using u' by (simp add: algebra_simps)
    have "from_dcm_row ?m = [4 * x * x, 4 * x * y, 4 * x * z, 4 * x * w]"
      unfolding from_dcm_row_0 [OF c0(1)] as_dcm_row_entries e
      by (simp add: algebra_simps)
    with nz show ?thesis by blast
  next
    assume c1: "?ch = 1" "?a < ?b"
    from c1(2) have "y * y \<noteq> 0"
      unfolding as_dcm_row_entries using u' nn by linarith
    then have nz: "4 * y \<noteq> 0" by simp
    have e: "1 - (x * x - y * y - z * z + w * w + (- (x * x) + y * y - z * z + w * w)
                + (- (x * x) - y * y + z * z + w * w)) + 2 * (- (x * x) + y * y - z * z + w * w)
             = 4 * y * y"
      using u' by (simp add: algebra_simps)
    have "from_dcm_row ?m = [4 * y * x, 4 * y * y, 4 * y * z, 4 * y * w]"
      unfolding from_dcm_row_1 [OF c1(1)] as_dcm_row_entries e
      by (simp add: algebra_simps)
    with nz show ?thesis by blast
  next
    assume c2: "?ch = 2" "?a < ?c"
    from c2(2) have "z * z \<noteq> 0"
      unfolding as_dcm_row_entries using u' nn by linarith
    then have nz: "4 * z \<noteq> 0" by simp
    have e: "1 - (x * x - y * y - z * z + w * w + (- (x * x) + y * y - z * z + w * w)
                + (- (x * x) - y * y + z * z + w * w)) + 2 * (- (x * x) - y * y + z * z + w * w)
             = 4 * z * z"
      using u' by (simp add: algebra_simps)
    have "from_dcm_row ?m = [4 * z * x, 4 * z * y, 4 * z * z, 4 * z * w]"
      unfolding from_dcm_row_2 [OF c2(1)] as_dcm_row_entries e
      by (simp add: algebra_simps)
    with nz show ?thesis by blast
  next
    assume c3: "?ch = 3" "?a < ?a + ?b + ?c"
    from c3(2) have "w * w \<noteq> 0"
      unfolding as_dcm_row_entries using u' nn by linarith
    then have nz: "4 * w \<noteq> 0" by simp
    have e: "1 + (x * x - y * y - z * z + w * w + (- (x * x) + y * y - z * z + w * w)
                + (- (x * x) - y * y + z * z + w * w))
             = 4 * w * w"
      using u' by (simp add: algebra_simps)
    have "from_dcm_row ?m = [4 * w * x, 4 * w * y, 4 * w * z, 4 * w * w]"
      unfolding from_dcm_row_3 [OF c3(1)] as_dcm_row_entries e
      by (simp add: algebra_simps)
    with nz show ?thesis by blast
  qed
qed

lemma norm_row_scaled:
  fixes x y z w c :: real
  assumes u: "x\<^sup>2 + y\<^sup>2 + z\<^sup>2 + w\<^sup>2 = 1"
  shows "norm_row [c * x, c * y, c * z, c * w] = \<bar>c\<bar>"
proof -
  have "(c * x)\<^sup>2 + (c * y)\<^sup>2 + (c * z)\<^sup>2 + (c * w)\<^sup>2 = c\<^sup>2 * (x\<^sup>2 + y\<^sup>2 + z\<^sup>2 + w\<^sup>2)"
    by (simp add: power_mult_distrib algebra_simps)
  then have "(c * x)\<^sup>2 + (c * y)\<^sup>2 + (c * z)\<^sup>2 + (c * w)\<^sup>2 = c\<^sup>2" using u by simp
  then show ?thesis by (simp add: norm_row4)
qed

lemma normalise_scaled:
  fixes x y z w c :: real
  assumes u: "x\<^sup>2 + y\<^sup>2 + z\<^sup>2 + w\<^sup>2 = 1" and c: "c \<noteq> 0"
  shows "map (\<lambda>v. v / norm_row [c * x, c * y, c * z, c * w]) [c * x, c * y, c * z, c * w]
         = (if 0 < c then [x, y, z, w] else map uminus [x, y, z, w])"
  unfolding norm_row_scaled [OF u] using c by (simp add: abs_if)

lemma length_from_dcm_row: "length (from_dcm_row m) = 4"
  by (simp add: from_dcm_row_def Let_def)

lemma from_dcm_single:
  "from_dcm (A2 3 [r0, r1, r2]) =
     Inr \<lparr>r_single = True,
          r_quat = [map (\<lambda>v. v / norm_row (from_dcm_row [r0, r1, r2])) (from_dcm_row [r0, r1, r2])]\<rparr>"
  by (simp add: from_dcm_def ndim_def Rotation_init_def length_from_dcm_row Let_def)


lemma Rotation_init_normalized_single:
  "length q = 4 \<Longrightarrow> Rotation_init (A1 q) True = Inr \<lparr>r_single = True, r_quat = [q]\<rparr>"
  by (simp add: Rotation_init_def ndim_def Let_def)

text \<open>
  C2: for every unit quaternion \<open>q\<close> given as a \<open>(4,)\<close> array in the order
  \<open>(x, y, z, w)\<close>, the rotation built from \<open>q\<close> has a matrix \<open>as_dcm\<close> from which
  \<open>from_dcm\<close> extracts exactly \<open>q\<close> or exactly \<open>-q\<close>. The norm by which \<open>from_dcm\<close>
  divides is not zero.
\<close>

theorem quat_dcm_roundtrip:
  assumes len: "length q = 4" and unit: "norm_row q = 1"
  shows "\<exists>r r'. from_quaternion (A1 q) normalized = Inr r
           \<and> from_dcm (as_dcm r) = Inr r'
           \<and> norm_row (from_dcm_row (as_dcm_row q)) \<noteq> 0
           \<and> (as_quaternion r' = A1 q \<or> as_quaternion r' = A1 (map uminus q))"
proof -
  from len obtain x y z w where q: "q = [x, y, z, w]" by (rule length4E)
  from unit have u: "x\<^sup>2 + y\<^sup>2 + z\<^sup>2 + w\<^sup>2 = 1" by (simp add: q unit4)
  have init: "from_quaternion (A1 q) normalized = Inr \<lparr>r_single = True, r_quat = [q]\<rparr>"
    unfolding from_quaternion_def q using unit [unfolded q] by (rule Rotation_init_unit_single)
  have dcm: "as_dcm \<lparr>r_single = True, r_quat = [q]\<rparr> = A2 3 (as_dcm_row q)"
    by (rule as_dcm_single)
  obtain r0 r1 r2 where m: "as_dcm_row q = [r0, r1, r2]"
    by (simp add: as_dcm_row_def Let_def)
  from from_dcm_row_as_dcm_row [OF u] obtain c where c: "c \<noteq> 0"
    and row: "from_dcm_row (as_dcm_row [x, y, z, w]) = [c * x, c * y, c * z, c * w]"
    by blast
  have nz: "norm_row (from_dcm_row (as_dcm_row q)) \<noteq> 0"
    unfolding q row norm_row_scaled [OF u] using c by simp
  let ?n = "map (\<lambda>v. v / norm_row (from_dcm_row (as_dcm_row q))) (from_dcm_row (as_dcm_row q))"
  have fd: "from_dcm (A2 3 (as_dcm_row q)) = Inr \<lparr>r_single = True, r_quat = [?n]\<rparr>"
    unfolding m by (rule from_dcm_single)
  have "?n = (if 0 < c then q else map uminus q)"
    unfolding q row by (rule normalise_scaled [OF u c])
  then have "?n = q \<or> ?n = map uminus q" by (simp split: if_splits)
  then have "as_quaternion \<lparr>r_single = True, r_quat = [?n]\<rparr> = A1 q
             \<or> as_quaternion \<lparr>r_single = True, r_quat = [?n]\<rparr> = A1 (map uminus q)"
    by (simp add: as_quaternion_def)
  with init dcm fd nz show ?thesis by (metis (no_types, lifting))
qed

theorem quat_dcm_roundtrip_witness:
  "length [0, 0, 0, 1 :: real] = 4 \<and> norm_row [0, 0, 0, 1] = 1
   \<and> (\<exists>r r'. from_quaternion (A1 [0, 0, 0, 1]) False = Inr r
           \<and> from_dcm (as_dcm r) = Inr r'
           \<and> norm_row (from_dcm_row (as_dcm_row [0, 0, 0, 1])) \<noteq> 0
           \<and> (as_quaternion r' = A1 [0, 0, 0, 1] \<or> as_quaternion r' = A1 (map uminus [0, 0, 0, 1])))"
proof -
  have l: "length [0, 0, 0, 1 :: real] = 4" by simp
  have n: "norm_row [0, 0, 0, 1] = 1" by (simp add: norm_row_def)
  from l n quat_dcm_roundtrip [OF l n, of False] show ?thesis by blast
qed

text \<open>
  C5: for every unit quaternion, the matrix \<open>M\<close> returned by \<open>as_dcm\<close> satisfies
  \<open>M\<^sup>t M = I\<close> and \<open>det M = 1\<close>.
\<close>

theorem as_dcm_orthogonal:
  assumes len: "length q = 4" and unit: "norm_row q = 1"
  shows "\<exists>r M. from_quaternion (A1 q) normalized = Inr r
           \<and> as_dcm r = A2 3 M
           \<and> mat_mul (mat_transpose M) M = eye3
           \<and> det3 M = 1"
proof -
  from len obtain x y z w where q: "q = [x, y, z, w]" by (rule length4E)
  from unit have u: "x\<^sup>2 + y\<^sup>2 + z\<^sup>2 + w\<^sup>2 = 1" by (simp add: q unit4)
  have init: "from_quaternion (A1 q) normalized = Inr \<lparr>r_single = True, r_quat = [q]\<rparr>"
    unfolding from_quaternion_def q using unit [unfolded q] by (rule Rotation_init_unit_single)
  have dcm: "as_dcm \<lparr>r_single = True, r_quat = [q]\<rparr> = A2 3 (as_dcm_row q)"
    by (rule as_dcm_single)
  have "mat_mul (mat_transpose (as_dcm_row q)) (as_dcm_row q) = eye3"
    unfolding q by (rule orth_row [OF u])
  moreover have "det3 (as_dcm_row q) = 1"
    unfolding q by (rule det_row [OF u])
  ultimately show ?thesis using init dcm by blast
qed

theorem as_dcm_orthogonal_witness:
  "length [0, 0, 0, 1 :: real] = 4 \<and> norm_row [0, 0, 0, 1] = 1
   \<and> (\<exists>r M. from_quaternion (A1 [0, 0, 0, 1]) False = Inr r
           \<and> as_dcm r = A2 3 M
           \<and> mat_mul (mat_transpose M) M = eye3
           \<and> det3 M = 1)"
proof -
  have l: "length [0, 0, 0, 1 :: real] = 4" by simp
  have n: "norm_row [0, 0, 0, 1] = 1" by (simp add: norm_row_def)
  from l n as_dcm_orthogonal [OF l n, of False] show ?thesis by blast
qed


subsection \<open>Rotation vectors\<close>

text \<open>
  C7: \<open>from_rotvec\<close> of the zero vector is the identity quaternion \<open>(0, 0, 0, 1)\<close>. The
  norm is zero, which selects the Taylor branch; the scale is \<open>1/2\<close>, the vector part
  is zero and the scalar part is \<open>cos 0 = 1\<close>.
\<close>

theorem from_rotvec_zero:
  "norm_row [0, 0, 0] = 0
   \<and> norm_row [0, 0, 0] \<le> 1 / 1000
   \<and> from_rotvec_scale (norm_row [0, 0, 0]) = 1 / 2
   \<and> from_rotvec (A1 [0, 0, 0]) = Inr \<lparr>r_single = True, r_quat = [[0, 0, 0, 1]]\<rparr>
   \<and> map_sum id as_quaternion (from_rotvec (A1 [0, 0, 0])) = Inr (A1 [0, 0, 0, 1])"
  by (simp add: from_rotvec_def ndim_def from_rotvec_row_def from_rotvec_scale_def
      norm_row_def Rotation_init_def as_quaternion_def Let_def)

theorem from_rotvec_zero_witness:
  "from_rotvec (A1 [0, 0, 0]) = Inr \<lparr>r_single = True, r_quat = [[0, 0, 0, 1]]\<rparr>"
  using from_rotvec_zero by blast

subsection \<open>Normalisation in the constructor\<close>






subsection \<open>Rotation vector round trip\<close>
















subsection \<open>The range of the rotation vector\<close>






lemma Rotation_init_single_row:
  assumes "Rotation_init quat normalized = Inr r" and "r_single r"
  shows "length (r_quat r) = 1"
proof -
  from assms(1) have ok: "ndim quat \<in> {1, 2}" "last (shape quat) = 4"
    by (auto simp add: Rotation_init_def split: if_splits)
  from assms ok have "shape quat = [4]"
    by (auto simp add: Rotation_init_def Let_def split: if_splits)
  then obtain q where q: "quat = A1 q" by (cases quat) simp_all
  from assms(1) show ?thesis
    by (auto simp add: q Rotation_init_def Let_def split: if_splits)
qed



subsection \<open>Shapes accepted by \<open>from_euler\<close>\<close>

lemma shape_deg2rad: "shape (deg2rad a) = shape a"
  by (cases a) (simp_all add: deg2rad_def)

lemma wf_deg2rad: "wf_array a \<Longrightarrow> wf_array (deg2rad a)"
  by (cases a) (simp_all add: deg2rad_def list_all_iff)

lemma make_dcm_from_angle_axis:
  assumes "c \<in> set ''xyzXYZ''"
  shows "\<exists>m. make_dcm_from_angle c a i = Inr m \<and> length m = 3"
  using assms
  by (auto simp add: make_dcm_from_angle_def lower_def char_of_eq_iff mat_transpose_def Let_def)

lemma length_einsum: "length (einsum_ij_jk_ik a b) = 3" "length (einsum_ij_ik_ik a b) = 3"
  by (simp_all add: einsum_ij_jk_ik_def einsum_ij_ik_ik_def)

lemma pre_multiply_axes:
  assumes "\<forall>(c, a)\<in>set l. c \<in> set ''xyzXYZ''" and "length dcm = 3"
  shows "\<exists>m. pre_multiply l dcm = Inr m \<and> length m = 3"
  using assms
proof (induction l arbitrary: dcm)
  case Nil
  then show ?case by simp
next
  case (Cons p l)
  obtain c a where p: "p = (c, a)" by (cases p)
  from Cons.prems p have "c \<in> set ''xyzXYZ''" by simp
  from make_dcm_from_angle_axis [OF this] obtain r where
    r: "make_dcm_from_angle c a False = Inr r" by blast
  have "\<exists>m. pre_multiply l (einsum_ij_jk_ik r dcm) = Inr m \<and> length m = 3"
    using Cons.prems by (intro Cons.IH) (simp_all add: length_einsum)
  then show ?case by (simp add: p r)
qed

lemma post_multiply_axes:
  assumes "\<forall>(c, a)\<in>set l. c \<in> set ''xyzXYZ''" and "length dcm = 3"
  shows "\<exists>m. post_multiply l dcm = Inr m \<and> length m = 3"
  using assms
proof (induction l arbitrary: dcm)
  case Nil
  then show ?case by simp
next
  case (Cons p l)
  obtain c a where p: "p = (c, a)" by (cases p)
  from Cons.prems p have "c \<in> set ''xyzXYZ''" by simp
  from make_dcm_from_angle_axis [OF this] obtain r where
    r: "make_dcm_from_angle c a True = Inr r" by blast
  have "\<exists>m. post_multiply l (einsum_ij_ik_ik dcm r) = Inr m \<and> length m = 3"
    using Cons.prems by (intro Cons.IH) (simp_all add: length_einsum)
  then show ?case by (simp add: p r)
qed

lemma re_match_whole:
  assumes "1 \<le> length s" and "length s \<le> 3" and "list_all (\<lambda>c. c \<in> set cls) s"
  shows "re_match cls s"
proof -
  from assms(1,2) have "length s = 1 \<or> length s = 2 \<or> length s = 3" by arith
  then show ?thesis
    using assms(3) unfolding re_match_def by (elim disjE) simp_all
qed

lemma axes_ok_match: "axes_ok s \<Longrightarrow> extrinsic s \<or> intrinsic s"
  unfolding axes_ok_def extrinsic_def intrinsic_def by (blast intro: re_match_whole)

lemma axes_ok_chars:
  assumes "axes_ok s"
  shows "\<forall>(c, a)\<in>set (zip s angle). c \<in> set ''xyzXYZ''"
proof -
  from assms have "\<forall>c\<in>set s. c \<in> set ''xyzXYZ''"
    unfolding axes_ok_def list_all_iff by auto
  then show ?thesis by (auto dest: set_zip_leftD)
qed

lemma make_dcm_from_euler_axes_ok:
  assumes ok: "axes_ok s" and len: "length angle = length s"
  shows "\<exists>m. make_dcm_from_euler s angle = Inr m \<and> length m = 3"
proof -
  have e3: "length eye3 = 3" by (simp add: eye3_def)
  note ch = axes_ok_chars [OF ok, of angle]
  from axes_ok_match [OF ok] show ?thesis
  proof
    assume "extrinsic s"
    then have "make_dcm_from_euler s angle = pre_multiply (zip s angle) eye3"
      using len by (simp add: make_dcm_from_euler_def)
    with pre_multiply_axes [OF ch e3] show ?thesis by simp
  next
    assume i: "intrinsic s"
    show ?thesis
    proof (cases "extrinsic s")
      case True
      then have "make_dcm_from_euler s angle = pre_multiply (zip s angle) eye3"
        using len by (simp add: make_dcm_from_euler_def)
      with pre_multiply_axes [OF ch e3] show ?thesis by simp
    next
      case False
      with i have "make_dcm_from_euler s angle = post_multiply (zip s angle) eye3"
        using len by (simp add: make_dcm_from_euler_def)
      with post_multiply_axes [OF ch e3] show ?thesis by simp
    qed
  qed
qed

lemma from_dcm_A2:
  assumes "length m = 3"
  shows "from_dcm (A2 3 m) =
     Inr \<lparr>r_single = True,
          r_quat = [map (\<lambda>v. v / norm_row (from_dcm_row m)) (from_dcm_row m)]\<rparr>"
  using assms
  by (simp add: from_dcm_def ndim_def Rotation_init_def length_from_dcm_row Let_def)

lemma from_dcm_A3:
  "from_dcm (A3 3 3 ds) =
     Inr \<lparr>r_single = False,
          r_quat = map (\<lambda>q. map (\<lambda>v. v / norm_row q) q) (map from_dcm_row ds)\<rparr>"
  by (simp add: from_dcm_def ndim_def Rotation_init_def Let_def)

lemma from_euler_Str_ok:
  assumes ok: "axes_ok s" and len: "length angles = length s"
  shows "\<exists>r. from_euler (Str s) (A1 angles) deg = Inr r \<and> r_single r \<and> length (r_quat r) = 1"
proof -
  define angles' where "angles' = (if deg then map (\<lambda>x. x * (pi / 180)) angles else angles)"
  have len': "length angles' = length s" using len by (simp add: angles'_def)
  have am: "(if deg then deg2rad (A1 angles) else A1 angles) = A1 angles'"
    by (simp add: angles'_def deg2rad_def)
  from make_dcm_from_euler_axes_ok [OF ok len'] obtain m where
    m: "make_dcm_from_euler s angles' = Inr m" and lm: "length m = 3" by blast
  have "from_euler (Str s) (A1 angles) deg = from_dcm (A2 3 m)"
    unfolding from_euler_def am Let_def using len' m by (simp add: ndim_def)
  then show ?thesis by (simp add: from_dcm_A2 [OF lm])
qed

lemma from_euler_Str_2d:
  assumes "ndim angle_mat = 2"
  shows "from_euler (Str s) angle_mat deg = Inl (ValueError Invalid_axis_sequence)"
  using assms by (auto simp add: from_euler_def ndim_def shape_deg2rad)


lemma fill_dcm_set_ok:
  assumes "\<forall>(s, row)\<in>set l. axes_ok s \<and> length row = length s"
  shows "\<exists>ds. fill_dcm_set l = Inr ds \<and> length ds = length l"
  using assms
proof (induction l)
  case Nil
  then show ?case by simp
next
  case (Cons p l)
  obtain s row where p: "p = (s, row)" by (cases p)
  from Cons.prems p have "axes_ok s" and "length row = length s" by simp_all
  from make_dcm_from_euler_axes_ok [OF this] obtain m where
    m: "make_dcm_from_euler s row = Inr m" by blast
  from Cons.IH Cons.prems obtain ds where "fill_dcm_set l = Inr ds" "length ds = length l"
    by auto
  with m show ?case by (simp add: p)
qed



lemma from_euler_StrArray_ok:
  assumes wf: "wf_array angle_mat" and sh: "shape angle_mat = [length seqs, 3]"
    and ok: "\<forall>q\<in>set seqs. axes_ok q \<and> length q = 3"
  shows "\<exists>r. from_euler (StrArray seqs) angle_mat deg = Inr r \<and> \<not> r_single r
             \<and> length (r_quat r) = length seqs"
proof -
  define a where "a = (if deg then deg2rad angle_mat else angle_mat)"
  have sha: "shape a = [length seqs, 3]" using sh by (simp add: a_def shape_deg2rad)
  have wfa: "wf_array a" using wf by (simp add: a_def wf_deg2rad)
  from sha obtain rows where a: "a = A2 3 rows" and n: "length rows = length seqs"
    by (cases a) simp_all
  have "\<forall>(q, row)\<in>set (zip seqs rows). axes_ok q \<and> length row = length q"
  proof (clarify)
    fix q row assume z: "(q, row) \<in> set (zip seqs rows)"
    then have "q \<in> set seqs" and "row \<in> set rows"
      by (auto dest: set_zip_leftD set_zip_rightD)
    with ok wfa show "axes_ok q \<and> length row = length q"
      by (simp add: a list_all_iff)
  qed
  from fill_dcm_set_ok [OF this] obtain ds where
    f: "fill_dcm_set (zip seqs rows) = Inr ds" and l: "length ds = length seqs"
    using n by auto
  have "from_euler (StrArray seqs) angle_mat deg = from_dcm (A3 3 3 ds)"
    unfolding from_euler_def Let_def a_def [symmetric] a using f n by (simp add: ndim_def)
  then show ?thesis by (simp add: from_dcm_A3 l)
qed

text \<open>
  C3, as stated: one sequence string with an \<open>(N, 3)\<close> array of angles is accepted and
  gives \<open>N\<close> rotations. It is not: the branch for a \<open>str\<close> raises \<open>ValueError\<close> unless
  the angles are one-dimensional, here on a \<open>(2, 3)\<close> array.
\<close>

theorem from_euler_batch_counterexample:
  "from_euler (Str ''xyz'') (A2 3 [[0, 0, 0], [pi / 2, 0, 0]]) False
     = Inl (ValueError Invalid_axis_sequence)"
  by (simp add: from_euler_def ndim_def)

text \<open>
  C3, amended: with one sequence string \<open>from_euler\<close> rejects every two-dimensional
  array of angles, so every \<open>(N, 3)\<close> array, with \<open>ValueError\<close>. One string of one to
  three axis letters is accepted with a one-dimensional vector of as many angles and
  gives one rotation; an \<open>(N, 3)\<close> array of angles is accepted with an array of \<open>N\<close>
  sequence strings of three axis letters each and gives \<open>N\<close> rotations.
\<close>

theorem from_euler_single_string:
  "(ndim angle_mat = 2 \<longrightarrow>
      from_euler (Str s) angle_mat deg = Inl (ValueError Invalid_axis_sequence))
   \<and> (axes_ok s \<and> length angles = length s \<longrightarrow>
        (\<exists>r. from_euler (Str s) (A1 angles) deg = Inr r \<and> r_single r \<and> length (r_quat r) = 1))
   \<and> (wf_array angle_mat \<and> shape angle_mat = [length seqs, 3]
        \<and> (\<forall>q\<in>set seqs. axes_ok q \<and> length q = 3) \<longrightarrow>
        (\<exists>r. from_euler (StrArray seqs) angle_mat deg = Inr r \<and> \<not> r_single r
              \<and> length (r_quat r) = length seqs))"
  using from_euler_Str_2d from_euler_Str_ok from_euler_StrArray_ok by blast

theorem from_euler_single_string_witness:
  "from_euler (Str ''xyz'') (A2 3 [[0, 0, 0], [pi / 2, 0, 0]]) False
      = Inl (ValueError Invalid_axis_sequence)
   \<and> (\<exists>r. from_euler (Str ''xyz'') (A1 [pi / 2, 0, 0]) False = Inr r \<and> r_single r
          \<and> length (r_quat r) = 1)
   \<and> (\<exists>r. from_euler (StrArray [''xyz'', ''XYZ'']) (A2 3 [[0, 0, 0], [pi / 2, 0, 0]]) False = Inr r
          \<and> \<not> r_single r \<and> length (r_quat r) = 2)"
proof -
  note th = from_euler_single_string
    [of "A2 3 [[0, 0, 0], [pi / 2, 0, 0]]" "''xyz''" False "[pi / 2, 0, 0]" "[''xyz'', ''XYZ'']"]
  have "ndim (A2 3 [[0, 0, 0], [pi / 2, 0, 0]]) = 2" by (simp add: ndim_def)
  with th have a: "from_euler (Str ''xyz'') (A2 3 [[0, 0, 0], [pi / 2, 0, 0]]) False
      = Inl (ValueError Invalid_axis_sequence)" by blast
  have ok: "axes_ok ''xyz''" "axes_ok ''XYZ''" by (simp_all add: axes_ok_def)
  have "axes_ok ''xyz'' \<and> length [pi / 2, 0, 0 :: real] = length ''xyz''" using ok by simp
  with th have b: "\<exists>r. from_euler (Str ''xyz'') (A1 [pi / 2, 0, 0]) False = Inr r \<and> r_single r
          \<and> length (r_quat r) = 1" by blast
  have "wf_array (A2 3 [[0, 0, 0], [pi / 2, 0, 0]])
        \<and> shape (A2 3 [[0, 0, 0], [pi / 2, 0, 0]]) = [length [''xyz'', ''XYZ''], 3]
        \<and> (\<forall>q\<in>set [''xyz'', ''XYZ'']. axes_ok q \<and> length q = 3)"
    using ok by simp
  with th have "\<exists>r. from_euler (StrArray [''xyz'', ''XYZ'']) (A2 3 [[0, 0, 0], [pi / 2, 0, 0]]) False = Inr r
          \<and> \<not> r_single r \<and> length (r_quat r) = length [''xyz'', ''XYZ'']" by blast
  then have c: "\<exists>r. from_euler (StrArray [''xyz'', ''XYZ'']) (A2 3 [[0, 0, 0], [pi / 2, 0, 0]]) False = Inr r
          \<and> \<not> r_single r \<and> length (r_quat r) = 2" by (simp add: numeral_2_eq_2)
  from a b c show ?thesis by blast
qed



end
